theory Spec2Isabelle
  imports Complex_Main
begin

section \<open>JavaScript helpers\<close>

text \<open>
  The repository is TypeScript. JavaScript numbers are modelled exactly: identifiers and
  counters are \<^typ>\<open>int\<close>, unit sizes and door positions (which the catalog makes
  fractional: 4.5, 2.5, ...) are \<^typ>\<open>rat\<close>, canvas coordinates are \<^typ>\<open>real\<close>.
  A thrown exception is a value \<open>Inl e\<close> of a sum type.
\<close>

datatype js_error = Error string | TypeError

text \<open>\<open>String(n)\<close> for an integer \<open>n\<close>: decimal digits, with a minus sign when negative.\<close>

fun digits_of_nat :: "nat \<Rightarrow> string" where
  "digits_of_nat n =
     (if n < 10 then [''0123456789'' ! n]
      else digits_of_nat (n div 10) @ [''0123456789'' ! (n mod 10)])"

declare digits_of_nat.simps [simp del]

definition String_of_int :: "int \<Rightarrow> string" where
  "String_of_int n = (if n < 0 then CHR ''-'' # digits_of_nat (nat (- n)) else digits_of_nat (nat n))"

section \<open>Data model (configurator.models.ts)\<close>

datatype Column = ColLeft | ColRight

record Door =
  position :: rat
  door_type :: string
  substitute :: "string option"
  label :: "string option"
  column :: "Column option"

text \<open>
  A frame. The display-only fields of the interface (\<open>iw\<close>, \<open>ih\<close>, \<open>left\<close>,
  \<open>grid_offset\<close>, \<open>rows\<close> and the UI flags) are read by no operation below and are
  left out. The field \<open>id\<close> is called \<open>id_frame\<close> and the frame's own \<open>door_type\<close>
  is called \<open>frame_door_type\<close>.
\<close>

record Frame =
  id_frame :: string
  frame_id :: string
  frame_door_type :: string
  width :: rat
  height :: rat
  bottom :: rat
  doors :: "Door list"

record Wall =
  wall_id :: int
  wall_name :: string
  frames :: "Frame list"

record Level =
  level_id :: int
  level_name :: string
  walls :: "Wall list"
  expanded :: "bool option"

record AppConfig =
  install_type :: string
  kit_color_value :: string
  kit_color_name :: string
  depot_color :: "string option"
  ada_mode :: string
  delivery_mode :: string
  app_mode :: string
  door_id_type :: string
  door_id_font :: "string option"
  lock_type :: string

datatype ModuleMode = FrameMode | SubstituteMode

text \<open>
  The aggregate root. \<open>configuration_number_array\<close> is a \<open>Record<string, string>\<close>, a
  finite map. The flags and metadata that no modelled operation reads or writes
  (\<open>offsets_z\<close>, \<open>locked_row\<close>, \<open>selected_door_id\<close>, the \<open>config_*_created\<close> flags,
  \<open>project_id\<close>, \<open>created_at\<close>) are left out.
\<close>

record ConfiguratorState =
  config :: AppConfig
  levels :: "Level list"
  active_level_id :: int
  active_wall_id :: int
  tenant_num_start :: "int option"
  parcel_num_start :: "int option"
  configuration_number_array :: "string \<rightharpoonup> string"
  height_lock_config :: bool
  height_lock_wall :: bool
  module_mode :: ModuleMode
  job_name :: string
  project_cookie_id :: string
  updated_at :: "string option"

section \<open>The state store (KonvaStateService)\<close>

definition DEFAULT_CONFIG :: AppConfig where
  "DEFAULT_CONFIG =
     \<lparr> install_type = ''recessed'', kit_color_value = ''0xdbe0eb_tbd'', kit_color_name = ''TBD'',
       depot_color = None, ada_mode = ''all'', delivery_mode = ''usps'', app_mode = ''standard'',
       door_id_type = ''tbd'', door_id_font = None, lock_type = ''Standard'' \<rparr>"

definition INITIAL_STATE :: ConfiguratorState where
  "INITIAL_STATE =
     \<lparr> config = DEFAULT_CONFIG,
       levels = [\<lparr> level_id = 0, level_name = ''Level 1'',
                   walls = [\<lparr> wall_id = 0, wall_name = ''Wall 1'', frames = [] \<rparr>],
                   expanded = Some True \<rparr>],
       active_level_id = 0, active_wall_id = 0,
       tenant_num_start = None, parcel_num_start = None,
       configuration_number_array = Map.empty,
       height_lock_config = False, height_lock_wall = False,
       module_mode = FrameMode, job_name = [], project_cookie_id = [],
       updated_at = None \<rparr>"

text \<open>
  \<open>setState\<close> installs the new snapshot stamped with the current time. The clock
  (\<open>new Date().toISOString()\<close>) is the parameter \<open>now\<close> of every mutating operation;
  writing to the browser's storage is outside the model.
\<close>

definition setState :: "string \<Rightarrow> ConfiguratorState \<Rightarrow> ConfiguratorState" where
  "setState now newState = newState\<lparr> updated_at := Some now \<rparr>"

definition getLevel :: "ConfiguratorState \<Rightarrow> int \<Rightarrow> Level option" where
  "getLevel state levelId = find (\<lambda>l. level_id l = levelId) (levels state)"

definition getActiveLevel :: "ConfiguratorState \<Rightarrow> Level option" where
  "getActiveLevel state = getLevel state (active_level_id state)"

definition getWall :: "ConfiguratorState \<Rightarrow> int \<Rightarrow> int \<Rightarrow> Wall option" where
  "getWall state levelId wallId =
     (case getLevel state levelId of
        None \<Rightarrow> None
      | Some level \<Rightarrow> find (\<lambda>w. wall_id w = wallId) (walls level))"

definition getActiveWall :: "ConfiguratorState \<Rightarrow> Wall option" where
  "getActiveWall state =
     (case getActiveLevel state of
        None \<Rightarrow> None
      | Some activeLevel \<Rightarrow> find (\<lambda>w. wall_id w = active_wall_id state) (walls activeLevel))"

text \<open>\<open>ids.length > 0 ? Math.max(...ids) + 1 : 0\<close>\<close>

definition next_id :: "int list \<Rightarrow> int" where
  "next_id ids = (case ids of [] \<Rightarrow> 0 | x # xs \<Rightarrow> fold max xs x + 1)"

definition allWallIds :: "Level list \<Rightarrow> int list" where
  "allWallIds lvls = concat (map (\<lambda>l. map wall_id (walls l)) lvls)"

definition addLevel :: "string \<Rightarrow> ConfiguratorState \<Rightarrow> Level \<times> ConfiguratorState" where
  "addLevel now state =
     (let lvls = levels state;
          newLevelId = next_id (map level_id lvls);
          newWallId = next_id (allWallIds lvls);
          newWall = \<lparr> wall_id = newWallId, wall_name = [], frames = [] \<rparr>;
          newLevel = \<lparr> level_id = newLevelId,
                       level_name = ''Level '' @ String_of_int (newLevelId + 1),
                       walls = [newWall], expanded = Some True \<rparr>
      in (newLevel, setState now (state\<lparr> levels := lvls @ [newLevel] \<rparr>)))"

text \<open>
  \<open>removeLevel\<close>. \<open>newLevels[0].level_id\<close> throws a TypeError when \<open>newLevels\<close> is
  empty. \<open>newActiveLevel?.walls[0]?.wall_id || 0\<close> is the first wall's id, or 0 when the
  level or the wall is missing (and 0 when the id is 0).
\<close>

definition first_wall_id :: "Level option \<Rightarrow> int" where
  "first_wall_id lv =
     (case lv of
        None \<Rightarrow> 0
      | Some l \<Rightarrow> (case walls l of [] \<Rightarrow> 0 | w # _ \<Rightarrow> wall_id w))"

definition removeLevel ::
  "string \<Rightarrow> int \<Rightarrow> ConfiguratorState \<Rightarrow> js_error + (bool \<times> ConfiguratorState)" where
  "removeLevel now levelId state =
     (let lvls = levels state in
      if levelId = 0 then Inr (False, state)
      else if length lvls \<le> 1 then Inr (False, state)
      else
        let newLevels = filter (\<lambda>l. level_id l \<noteq> levelId) lvls in
        if active_level_id state = levelId \<and> newLevels = [] then Inl TypeError
        else
          let newActiveLevelId =
                (if active_level_id state = levelId then level_id (hd newLevels)
                 else active_level_id state);
              newActiveLevel = find (\<lambda>l. level_id l = newActiveLevelId) newLevels;
              newActiveWallId = first_wall_id newActiveLevel
          in Inr (True, setState now (state\<lparr> levels := newLevels,
                                            active_level_id := newActiveLevelId,
                                            active_wall_id := newActiveWallId \<rparr>)))"

definition setActiveLevel ::
  "string \<Rightarrow> int \<Rightarrow> ConfiguratorState \<Rightarrow> js_error + ConfiguratorState" where
  "setActiveLevel now levelId state =
     (case getLevel state levelId of
        None \<Rightarrow> Inl (Error (''Level '' @ String_of_int levelId @ '' not found''))
      | Some level \<Rightarrow>
          Inr (setState now (state\<lparr> active_level_id := levelId,
                                    active_wall_id := first_wall_id (Some level) \<rparr>)))"

definition addWall ::
  "string \<Rightarrow> int \<Rightarrow> ConfiguratorState \<Rightarrow> js_error + (Wall \<times> ConfiguratorState)" where
  "addWall now levelId state =
     (let lvls = levels state in
      case find (\<lambda>l. level_id l = levelId) lvls of
        None \<Rightarrow> Inl (Error (''Level '' @ String_of_int levelId @ '' not found''))
      | Some level \<Rightarrow>
          let newWall = \<lparr> wall_id = next_id (allWallIds lvls), wall_name = [], frames = [] \<rparr>;
              updatedLevels =
                map (\<lambda>l. if level_id l = levelId then l\<lparr> walls := walls l @ [newWall] \<rparr> else l) lvls
          in Inr (newWall, setState now (state\<lparr> levels := updatedLevels \<rparr>)))"

text \<open>
  \<open>removeWall\<close>. Inside the \<open>map\<close> callback the source computes a local
  \<open>newActiveWallId\<close> that it never uses; its \<open>newWalls[0].wall_id\<close> still throws a
  TypeError when the removed wall is the active one and no wall is left. The active wall
  that is installed is computed after the \<open>map\<close>, from the level \<open>levelId\<close>.
\<close>

definition removeWall ::
  "string \<Rightarrow> int \<Rightarrow> int \<Rightarrow> ConfiguratorState \<Rightarrow> js_error + (bool \<times> ConfiguratorState)" where
  "removeWall now levelId wallId state =
     (let lvls = levels state in
      case find (\<lambda>l. level_id l = levelId) lvls of
        None \<Rightarrow> Inr (False, state)
      | Some level \<Rightarrow>
          if length (walls level) \<le> 1 then Inr (False, state)
          else if list_ex (\<lambda>l. level_id l = levelId \<and> active_wall_id state = wallId \<and>
                                filter (\<lambda>w. wall_id w \<noteq> wallId) (walls l) = []) lvls
          then Inl TypeError
          else
            let updatedLevels =
                  map (\<lambda>l. if level_id l = levelId
                            then l\<lparr> walls := filter (\<lambda>w. wall_id w \<noteq> wallId) (walls l) \<rparr>
                            else l) lvls;
                updatedLevel = find (\<lambda>l. level_id l = levelId) updatedLevels;
                newActiveWallId =
                  (case updatedLevel of
                     None \<Rightarrow> 0
                   | Some ul \<Rightarrow>
                       (case find (\<lambda>w. wall_id w = active_wall_id state) (walls ul) of
                          Some w \<Rightarrow> active_wall_id state
                        | None \<Rightarrow> first_wall_id updatedLevel))
            in Inr (True, setState now (state\<lparr> levels := updatedLevels,
                                              active_wall_id := newActiveWallId \<rparr>)))"

text \<open>
  \<open>setActiveWall\<close>: the \<open>for\<close> loop stops at the first level that has a wall with the
  id.
\<close>

definition setActiveWall ::
  "string \<Rightarrow> int \<Rightarrow> ConfiguratorState \<Rightarrow> js_error + ConfiguratorState" where
  "setActiveWall now wallId state =
     (case find (\<lambda>l. find (\<lambda>w. wall_id w = wallId) (walls l) \<noteq> None) (levels state) of
        None \<Rightarrow> Inl (Error (''Wall '' @ String_of_int wallId @ '' not found''))
      | Some foundLevel \<Rightarrow>
          Inr (setState now (state\<lparr> active_level_id := level_id foundLevel,
                                    active_wall_id := wallId \<rparr>)))"

text \<open>
  \<open>addFrame\<close>: \<open>generateId()\<close> (clock and random number) is the parameter \<open>newId\<close>;
  the argument \<open>frame\<close> carries every other field.
\<close>

definition addFrame ::
  "string \<Rightarrow> string \<Rightarrow> int \<Rightarrow> Frame \<Rightarrow> ConfiguratorState \<Rightarrow> Frame \<times> ConfiguratorState" where
  "addFrame now newId wallId frame state =
     (let newFrame = frame\<lparr> id_frame := newId \<rparr>;
          lvls = map (\<lambda>l. l\<lparr> walls := map (\<lambda>w. if wall_id w = wallId
                                                  then w\<lparr> frames := frames w @ [newFrame] \<rparr>
                                                  else w) (walls l) \<rparr>) (levels state)
      in (newFrame, setState now (state\<lparr> levels := lvls \<rparr>)))"

definition removeFrame :: "string \<Rightarrow> int \<Rightarrow> string \<Rightarrow> ConfiguratorState \<Rightarrow> ConfiguratorState" where
  "removeFrame now wallId frameId state =
     (let lvls = map (\<lambda>l. l\<lparr> walls := map (\<lambda>w. if wall_id w = wallId
                                                  then w\<lparr> frames := filter (\<lambda>f. id_frame f \<noteq> frameId) (frames w) \<rparr>
                                                  else w) (walls l) \<rparr>) (levels state)
      in setState now (state\<lparr> levels := lvls \<rparr>))"

definition updateWallFrames ::
  "string \<Rightarrow> int \<Rightarrow> Frame list \<Rightarrow> ConfiguratorState \<Rightarrow> ConfiguratorState" where
  "updateWallFrames now wallId frs state =
     (let lvls = map (\<lambda>l. l\<lparr> walls := map (\<lambda>w. if wall_id w = wallId
                                                  then w\<lparr> frames := frs \<rparr>
                                                  else w) (walls l) \<rparr>) (levels state)
      in setState now (state\<lparr> levels := lvls \<rparr>))"

section \<open>The door catalog (door-configs.ts)\<close>

text \<open>
  \<open>DOOR_CONFIGS\<close>, restricted to the two columns that the engines read: the unit size
  and the category of each door-type code.
\<close>

datatype Category = Tenant | Parcel | Master | Special

definition DOOR_CONFIGS :: "(string \<times> rat \<times> Category) list" where
  "DOOR_CONFIGS =
     [(''sd'', 1, Tenant), (''dd'', 2, Tenant), (''td'', 3, Tenant), (''qd'', 4, Tenant),
      (''qud'', 5, Tenant),
      (''p2'', 2, Parcel), (''p3'', 3, Parcel), (''p4'', 4, Parcel), (''p5'', 5, Parcel),
      (''p6'', 6, Parcel), (''sp'', 9 / 2, Parcel),
      (''md'', 1, Master), (''mdsd'', 2, Master),
      (''s'', 1, Special), (''bs'', 1, Special), (''ms'', 1, Special), (''bms'', 1, Special),
      (''hopd'', 5 / 2, Special), (''hopbp'', 15 / 2, Special),
      (''hopsp10'', 1, Special), (''hopsp20'', 2, Special), (''hopsp30'', 3, Special),
      (''hopsp40'', 4, Special), (''hopsp50'', 5, Special), (''hopsp55'', 11 / 2, Special),
      (''tds1'', 2, Special), (''td5'', 5, Special), (''td5p'', 11 / 2, Special),
      (''tdh5'', 5, Special), (''tdh5p'', 11 / 2, Special), (''tdh6'', 6, Special),
      (''tdh8'', 8, Special), (''tdh8p'', 8, Special), (''tdh9'', 9, Special),
      (''td6'', 6, Special), (''tdh10'', 10, Special), (''tdh11'', 11, Special)]"

definition getDoorUnits :: "string \<Rightarrow> rat" where
  "getDoorUnits name = (case map_of DOOR_CONFIGS name of Some (u, c) \<Rightarrow> u | None \<Rightarrow> 1)"


text \<open>\<open>toLowerCase\<close> and \<open>toUpperCase\<close> on the ASCII letters that door codes are written in.\<close>

definition lower_char :: "char \<Rightarrow> char" where
  "lower_char c =
     (case map_of (zip ''ABCDEFGHIJKLMNOPQRSTUVWXYZ'' ''abcdefghijklmnopqrstuvwxyz'') c of
        Some d \<Rightarrow> d | None \<Rightarrow> c)"

definition upper_char :: "char \<Rightarrow> char" where
  "upper_char c =
     (case map_of (zip ''abcdefghijklmnopqrstuvwxyz'' ''ABCDEFGHIJKLMNOPQRSTUVWXYZ'') c of
        Some d \<Rightarrow> d | None \<Rightarrow> c)"

definition toLowerCase :: "string \<Rightarrow> string" where
  "toLowerCase s = map lower_char s"

definition toUpperCase :: "string \<Rightarrow> string" where
  "toUpperCase s = map upper_char s"


section \<open>The cabinet editor (cabinet-editor-modal.component.ts)\<close>

text \<open>
  A door id is the template string \<open>`${door.position}-${column}`\<close>, and the marker of an
  empty slot is \<open>`empty-${startSlotIndex}-${column}`\<close>. Two such strings are equal exactly
  when their parts are, and a door id never starts with \<open>empty-\<close>, so the ids are
  modelled by their parts.
\<close>

datatype DoorId = DoorKey rat Column | EmptyKey nat Column

record Slot =
  unitIndex :: nat
  slot_column :: Column
  door :: "Door option"
  isOccupiedByAbove :: bool

text \<open>
  The component's state: the frame being edited, the two slot arrays, the unit count and
  the two highlight sets. A JavaScript \<open>Set<string>\<close> keeps insertion order and no
  duplicates; it is a list extended by \<open>set_add\<close>.
\<close>

record Editor =
  frame :: Frame
  leftSlots :: "Slot list"
  rightSlots :: "Slot list"
  totalUnits :: int
  highlightedDoors :: "DoorId list"
  invalidDoors :: "DoorId list"


definition DOOR_UNIT :: rat where
  "DOOR_UNIT = 7 / 2"

definition Math_round :: "rat \<Rightarrow> int" where
  "Math_round x = \<lfloor>x + 1 / 2\<rfloor>"

definition isLeftDoor :: "Door \<Rightarrow> bool" where
  "isLeftDoor d = (column d = Some ColLeft \<or> column d = None)"

definition isRightDoor :: "Door \<Rightarrow> bool" where
  "isRightDoor d = (column d = Some ColRight)"

definition getLeftDoors :: "Frame \<Rightarrow> Door list" where
  "getLeftDoors f = filter isLeftDoor (doors f)"

definition getRightDoors :: "Frame \<Rightarrow> Door list" where
  "getRightDoors f = filter isRightDoor (doors f)"

text \<open>\<open>door.column || 'left'\<close>\<close>

definition door_column :: "Door \<Rightarrow> Column" where
  "door_column d = (case column d of None \<Rightarrow> ColLeft | Some c \<Rightarrow> c)"

definition getDoorId :: "Door \<Rightarrow> DoorId" where
  "getDoorId d = DoorKey (position d) (door_column d)"

definition door_units :: "Door \<Rightarrow> rat" where
  "door_units d = getDoorUnits (toLowerCase (door_type d))"

text \<open>
  \<open>placeDoorInSlots\<close>: one iteration of the loop for the counter \<open>i\<close>. Writing a
  field of \<open>slots[unitIndex]\<close> throws a TypeError when \<open>unitIndex\<close> is below the
  array's length and is not one of its indices (negative or fractional).
\<close>

definition place_unit :: "Door \<Rightarrow> nat \<Rightarrow> Slot list \<Rightarrow> js_error + Slot list" where
  "place_unit d i slots =
     (let unitIndex = position d + of_nat i in
      if unitIndex < of_nat (length slots) then
        (if 0 \<le> unitIndex \<and> unitIndex = of_int \<lfloor>unitIndex\<rfloor> then
           Inr (slots[nat \<lfloor>unitIndex\<rfloor> :=
                  (slots ! nat \<lfloor>unitIndex\<rfloor>)\<lparr> door := (if i = 0 then Some d else None),
                                                       isOccupiedByAbove := (0 < i) \<rparr>])
         else Inl TypeError)
      else Inr slots)"

fun place_units :: "Door \<Rightarrow> nat list \<Rightarrow> Slot list \<Rightarrow> js_error + Slot list" where
  "place_units d [] slots = Inr slots"
| "place_units d (i # rest) slots =
     (case place_unit d i slots of Inl e \<Rightarrow> Inl e | Inr slots' \<Rightarrow> place_units d rest slots')"

text \<open>The loop \<open>for (i = 0; i < units; i++)\<close> runs for the naturals below \<open>units\<close>.\<close>

definition placeDoorInSlots :: "Door \<Rightarrow> Slot list \<Rightarrow> js_error + Slot list" where
  "placeDoorInSlots d slots = place_units d [0 ..< nat \<lceil>door_units d\<rceil>] slots"

fun placeDoors :: "Door list \<Rightarrow> Slot list \<Rightarrow> js_error + Slot list" where
  "placeDoors [] slots = Inr slots"
| "placeDoors (d # ds) slots =
     (case placeDoorInSlots d slots of Inl e \<Rightarrow> Inl e | Inr slots' \<Rightarrow> placeDoors ds slots')"

definition emptySlots :: "Column \<Rightarrow> nat \<Rightarrow> Slot list" where
  "emptySlots c n =
     map (\<lambda>i. \<lparr> unitIndex = i, slot_column = c, door = None, isOccupiedByAbove = False \<rparr>) [0 ..< n]"

definition initializeSlots :: "Editor \<Rightarrow> js_error + Editor" where
  "initializeSlots ed =
     (let units_total = Math_round (height (frame ed) / DOOR_UNIT) in
      case placeDoors (getLeftDoors (frame ed)) (emptySlots ColLeft (nat units_total)) of
        Inl e \<Rightarrow> Inl e
      | Inr ls \<Rightarrow>
          (case placeDoors (getRightDoors (frame ed)) (emptySlots ColRight (nat units_total)) of
             Inl e \<Rightarrow> Inl e
           | Inr rs \<Rightarrow> Inr (ed\<lparr> totalUnits := units_total, leftSlots := ls, rightSlots := rs \<rparr>)))"

definition slotsOf :: "Editor \<Rightarrow> Column \<Rightarrow> Slot list" where
  "slotsOf ed c = (if c = ColLeft then leftSlots ed else rightSlots ed)"

definition getEmptySlots :: "Editor \<Rightarrow> Column \<Rightarrow> nat list" where
  "getEmptySlots ed c =
     map fst (filter (\<lambda>(index, slot). door slot = None \<and> \<not> isOccupiedByAbove slot)
                (zip [0 ..< length (slotsOf ed c)] (slotsOf ed c)))"

definition hasEmptySlots :: "Editor \<Rightarrow> bool" where
  "hasEmptySlots ed = (getEmptySlots ed ColLeft \<noteq> [] \<or> getEmptySlots ed ColRight \<noteq> [])"

subsection \<open>Hovering over empty slots and dropping a palette door\<close>








text \<open>
  \<open>replaceDoors\<close>, in two parts: the new \<open>doors\<close> array (\<open>None\<close> on the early return
  after the warning), and its installation followed by \<open>initializeSlots\<close>.
\<close>

definition replaceDoors_doors :: "Door list \<Rightarrow> Door \<Rightarrow> string \<Rightarrow> DoorId list \<Rightarrow> Door list option" where
  "replaceDoors_doors ds firstDoor newDoorType doorIdsToRemove =
     (let newDoorUnits = getDoorUnits newDoorType;
          doorsToRemoveObjects = filter (\<lambda>d. getDoorId d \<in> set doorIdsToRemove) ds;
          totalFreedSlots = fold (\<lambda>d t. t + door_units d) doorsToRemoveObjects 0;
          minPosition = fold (\<lambda>d m. min m (position d)) doorsToRemoveObjects (position firstDoor)
      in if totalFreedSlots < newDoorUnits then None
         else
           let updatedDoors = filter (\<lambda>d. getDoorId d \<notin> set doorIdsToRemove) ds;
               newDoor = firstDoor\<lparr> door_type := toUpperCase newDoorType, position := minPosition \<rparr>
           in Some (updatedDoors @ [newDoor]))"

definition replaceDoors :: "Door \<Rightarrow> string \<Rightarrow> DoorId list \<Rightarrow> Editor \<Rightarrow> js_error + Editor" where
  "replaceDoors firstDoor newDoorType doorIdsToRemove ed =
     (case replaceDoors_doors (doors (frame ed)) firstDoor newDoorType doorIdsToRemove of
        None \<Rightarrow> Inr ed
      | Some ds' \<Rightarrow> initializeSlots (ed\<lparr> frame := (frame ed)\<lparr> doors := ds' \<rparr> \<rparr>))"




subsection \<open>Swapping two doors\<close>

text \<open>
  \<open>trySwapDoors\<close>. The two doors are objects of \<open>frame.doors\<close>, compared by identity
  (\<open>d === door1\<close>): they are given by their indices in the array.
\<close>

definition swap_blocked :: "Door list \<Rightarrow> nat \<Rightarrow> nat \<Rightarrow> bool" where
  "swap_blocked ds i j =
     (let door1 = ds ! i; door2 = ds ! j;
          door1Column = door_column door1;
          minPos = min (position door1) (position door2);
          maxPos = max (position door1 + door_units door1 - 1) (position door2 + door_units door2 - 1)
      in list_ex (\<lambda>k. door_column (ds ! k) = door1Column \<and> k \<noteq> i \<and> k \<noteq> j \<and>
                      (let d = ds ! k; dEnd = position d + door_units d - 1
                       in (minPos \<le> position d \<and> position d \<le> maxPos) \<or>
                          (minPos \<le> dEnd \<and> dEnd \<le> maxPos)))
           [0 ..< length ds])"

definition trySwapDoors :: "nat \<Rightarrow> nat \<Rightarrow> Editor \<Rightarrow> js_error + (bool \<times> Editor)" where
  "trySwapDoors i j ed =
     (let ds = doors (frame ed) in
      if length ds \<le> i \<or> length ds \<le> j then Inl TypeError
      else
        let door1 = ds ! i; door2 = ds ! j;
            door1Column = door_column door1;
            door2Column = (case column door2 of None \<Rightarrow> ColRight | Some c \<Rightarrow> c)
        in if door1Column \<noteq> door2Column then Inr (False, ed)
           else
             let door1NewEnd = position door2 + door_units door1 - 1;
                 door2NewEnd = position door1 + door_units door2 - 1
             in if of_int (totalUnits ed) \<le> door1NewEnd \<or> of_int (totalUnits ed) \<le> door2NewEnd
                then Inr (False, ed)
                else if swap_blocked ds i j then Inr (False, ed)
                else
                  let ds1 = ds[i := door1\<lparr> position := position door2 \<rparr>];
                      ds2 = ds1[j := (ds1 ! j)\<lparr> position := position door1 \<rparr>]
                  in case initializeSlots (ed\<lparr> frame := (frame ed)\<lparr> doors := ds2 \<rparr> \<rparr>) of
                       Inl e \<Rightarrow> Inl e
                     | Inr ed' \<Rightarrow> Inr (True, ed'))"

subsection \<open>Position conversion on open and on save\<close>

text \<open>
  \<open>denormalizeDoorPositions\<close>. \<open>Array.prototype.sort\<close> is stable, as \<open>sort_key\<close> is.
  \<open>Map.set\<close> overwrites, so of two doors at the same position the later index stays:
  the association list is searched from its end.
\<close>

definition posMap :: "Door list \<Rightarrow> rat \<Rightarrow> nat option" where
  "posMap columnDoors =
     (let sorted = sort_key position columnDoors
      in map_of (rev (zip (map position sorted) [0 ..< length sorted])))"

definition denormalizeDoorPositions :: "Frame \<Rightarrow> Frame" where
  "denormalizeDoorPositions f =
     (let leftPosMap = posMap (getLeftDoors f);
          rightPosMap = posMap (getRightDoors f)
      in f\<lparr> doors :=
             map (\<lambda>d. case (if door_column d = ColLeft then leftPosMap else rightPosMap) (position d) of
                         Some sequentialPos \<Rightarrow> d\<lparr> position := of_nat sequentialPos \<rparr>
                       | None \<Rightarrow> d)
                 (doors f) \<rparr>)"

text \<open>
  \<open>normalizeDoorPositions\<close> writes into the door objects through the sorted copies of
  the column arrays: the doors are addressed by their indices in \<open>frame.doors\<close>.
\<close>

fun normalize_from :: "rat \<Rightarrow> nat list \<Rightarrow> Door list \<Rightarrow> Door list" where
  "normalize_from currentUnit [] ds = ds"
| "normalize_from currentUnit (k # rest) ds =
     normalize_from (currentUnit + door_units (ds ! k)) rest
       (ds[k := (ds ! k)\<lparr> position := currentUnit \<rparr>])"

definition normalizeDoorPositions :: "Frame \<Rightarrow> Frame" where
  "normalizeDoorPositions f =
     (let ds = doors f;
          leftDoors = sort_key (\<lambda>k. position (ds ! k)) (filter (\<lambda>k. isLeftDoor (ds ! k)) [0 ..< length ds]);
          rightDoors = sort_key (\<lambda>k. position (ds ! k)) (filter (\<lambda>k. isRightDoor (ds ! k)) [0 ..< length ds])
      in f\<lparr> doors := normalize_from 0 rightDoors (normalize_from 0 leftDoors ds) \<rparr>)"

text \<open>
  The no-overlap property of a \<open>doors\<close> array: two different doors of one column have
  disjoint ranges \<open>[position, position + units)\<close>.
\<close>

definition ranges_disjoint :: "Door \<Rightarrow> Door \<Rightarrow> bool" where
  "ranges_disjoint a b =
     (position a + door_units a \<le> position b \<or> position b + door_units b \<le> position a)"

definition no_overlap :: "Door list \<Rightarrow> bool" where
  "no_overlap ds =
     list_all (\<lambda>a. list_all (\<lambda>b. a = b \<or> door_column (ds ! a) \<noteq> door_column (ds ! b) \<or>
                                  ranges_disjoint (ds ! a) (ds ! b))
                 [0 ..< length ds])
       [0 ..< length ds]"

subsection \<open>Opening the editor and dropping on an empty slot\<close>

text \<open>
  \<open>ngOnChanges\<close> when \<open>isOpen\<close> becomes true: the positions are normalised and the slots
  are built. The fields start as the class initialises them.
\<close>

definition ngOnChanges_open :: "Frame \<Rightarrow> js_error + Editor" where
  "ngOnChanges_open f =
     initializeSlots \<lparr> frame = normalizeDoorPositions f, leftSlots = [], rightSlots = [],
                       totalUnits = 0, highlightedDoors = [], invalidDoors = [] \<rparr>"



section \<open>Auto-numbering (updateAutoNumbering)\<close>









section \<open>Frame reordering (dragend handler, reorderFrames)\<close>

text \<open>
  A frame's group on the canvas, by the four accessors \<open>x()\<close>, \<open>y()\<close>, \<open>width()\<close>,
  \<open>height()\<close> that the engines read.
\<close>

record KonvaGroup =
  group_x :: real
  group_y :: real
  group_width :: real
  group_height :: real

text \<open>
  The \<open>dragend\<close> handler: \<open>x\<close> is the dragged group's \<open>x()\<close> at the drop, \<open>others\<close>
  are the sibling groups; the new index is the position of the first sibling, in order
  of \<open>x()\<close>, whose midpoint is to the right of \<open>x\<close>, or their number.
\<close>

definition dragend_newIndex :: "real \<Rightarrow> KonvaGroup list \<Rightarrow> nat" where
  "dragend_newIndex x others =
     (let otherGroups = sort_key group_x others
      in length (takeWhile (\<lambda>other. \<not> x < group_x other + group_width other / 2) otherGroups))"

text \<open>
  \<open>frames.splice(oldIndex, 1)[0]\<close> is undefined beyond the array (the function then
  returns); \<open>frames.splice(newIndex, 0, moved)\<close> inserts at the end when \<open>newIndex\<close>
  is beyond it.
\<close>

definition splice_move :: "nat \<Rightarrow> nat \<Rightarrow> 'a list \<Rightarrow> 'a list option" where
  "splice_move oldIndex newIndex frs =
     (if length frs \<le> oldIndex then None
      else
        let moved = frs ! oldIndex;
            removed = take oldIndex frs @ drop (Suc oldIndex) frs
        in Some (take newIndex removed @ [moved] @ drop newIndex removed))"

definition reorderFrames :: "string \<Rightarrow> nat \<Rightarrow> nat \<Rightarrow> ConfiguratorState \<Rightarrow> ConfiguratorState" where
  "reorderFrames now oldIndex newIndex state =
     (case getActiveWall state of
        None \<Rightarrow> state
      | Some activeWall \<Rightarrow>
          (case splice_move oldIndex newIndex (frames activeWall) of
             None \<Rightarrow> state
           | Some frs \<Rightarrow> updateWallFrames now (wall_id activeWall) frs state))"

section \<open>Snap points (getSnapPointsForGroup, findNearestSnapPoint)\<close>









section \<open>Project snapshots (loadStateFromProject, exportStateForProject)\<close>






section \<open>Reachable states of the store\<close>

text \<open>
  The mutation operations of the store as a datatype, and the state after a sequence of
  them. An operation that throws leaves the state as it was (the exception is raised
  before \<open>setState\<close>).
\<close>

datatype StoreOp =
    AddLevel
  | RemoveLevel int
  | AddWall int
  | RemoveWall int int
  | SetActiveLevel int
  | SetActiveWall int
  | AddFrame string int Frame
  | RemoveFrame int string

fun apply_op :: "string \<Rightarrow> StoreOp \<Rightarrow> ConfiguratorState \<Rightarrow> ConfiguratorState" where
  "apply_op now AddLevel s = snd (addLevel now s)"
| "apply_op now (RemoveLevel l) s = (case removeLevel now l s of Inl e \<Rightarrow> s | Inr (b, s') \<Rightarrow> s')"
| "apply_op now (AddWall l) s = (case addWall now l s of Inl e \<Rightarrow> s | Inr (w, s') \<Rightarrow> s')"
| "apply_op now (RemoveWall l w) s = (case removeWall now l w s of Inl e \<Rightarrow> s | Inr (b, s') \<Rightarrow> s')"
| "apply_op now (SetActiveLevel l) s = (case setActiveLevel now l s of Inl e \<Rightarrow> s | Inr s' \<Rightarrow> s')"
| "apply_op now (SetActiveWall w) s = (case setActiveWall now w s of Inl e \<Rightarrow> s | Inr s' \<Rightarrow> s')"
| "apply_op now (AddFrame newId w f) s = snd (addFrame now newId w f s)"
| "apply_op now (RemoveFrame w f) s = removeFrame now w f s"

definition run_ops :: "string \<Rightarrow> StoreOp list \<Rightarrow> ConfiguratorState \<Rightarrow> ConfiguratorState" where
  "run_ops now ops s = fold (apply_op now) ops s"

text \<open>
  The active pointers are valid when some level has the active level id and a wall of
  that level has the active wall id.
\<close>

definition active_pointers_valid :: "ConfiguratorState \<Rightarrow> bool" where
  "active_pointers_valid s =
     list_ex (\<lambda>l. level_id l = active_level_id s \<and>
                   list_ex (\<lambda>w. wall_id w = active_wall_id s) (walls l))
       (levels s)"

section \<open>Vocabulary of the properties and scenario data\<close>


text \<open>
  The data of the scenarios: a frame of six units (21 inches at 3.5 inches a unit) with a
  given id and doors, a door without substitute and label, and a frame group on the
  canvas at a given \<open>x()\<close> with a given \<open>width()\<close>.
\<close>

definition scenario_frame :: "string \<Rightarrow> Door list \<Rightarrow> Frame" where
  "scenario_frame name ds =
     \<lparr> id_frame = name, frame_id = ''4C06S-03'', frame_door_type = ''sd'',
       width = 67 / 4, height = 21, bottom = 28, doors = ds \<rparr>"

definition scenario_door :: "rat \<Rightarrow> string \<Rightarrow> Column option \<Rightarrow> Door" where
  "scenario_door p ty c =
     \<lparr> position = p, door_type = ty, substitute = None, label = None, column = c \<rparr>"

definition frame_group :: "real \<Rightarrow> real \<Rightarrow> KonvaGroup" where
  "frame_group x w = \<lparr> group_x = x, group_y = 0, group_width = w, group_height = 100 \<rparr>"

text \<open>The initial state after three frames A, B, C were added to wall 0.\<close>

definition three_frames :: ConfiguratorState where
  "three_frames =
     run_ops ''t'' [AddFrame ''A'' 0 (scenario_frame [] []), AddFrame ''B'' 0 (scenario_frame [] []),
                    AddFrame ''C'' 0 (scenario_frame [] [])] INITIAL_STATE"


text \<open>
  The doors that \<open>replaceDoors\<close> vacates (those whose id is in the list) and the sum of
  their unit sizes.
\<close>

definition vacated :: "Door list \<Rightarrow> DoorId list \<Rightarrow> Door list" where
  "vacated ds ids = filter (\<lambda>d. getDoorId d \<in> set ids) ds"

definition freed_units :: "Door list \<Rightarrow> DoorId list \<Rightarrow> rat" where
  "freed_units ds ids = sum_list (map door_units (vacated ds ids))"

text \<open>What the scenarios observe of an editor: position and type of each door, and the two highlight sets.\<close>

definition door_summary :: "Door list \<Rightarrow> (rat \<times> string) list" where
  "door_summary ds = map (\<lambda>d. (position d, door_type d)) ds"

definition editor_view :: "Editor \<Rightarrow> (rat \<times> string) list \<times> DoorId list \<times> DoorId list" where
  "editor_view ed = (door_summary (doors (frame ed)), highlightedDoors ed, invalidDoors ed)"

definition swap_view :: "Editor \<Rightarrow> (rat \<times> string) list \<times> bool" where
  "swap_view ed = (door_summary (doors (frame ed)), no_overlap (doors (frame ed)))"

text \<open>
  The packing scenario: a frame of six units whose left column holds a dd and a sd,
  stored with the sequential positions 0 and 1 as the store keeps them, and the editor
  opened on it (dd at unit 0, sd at unit 2).
\<close>

definition packing_frame :: Frame where
  "packing_frame = scenario_frame ''F'' [scenario_door 0 ''dd'' None, scenario_door 1 ''sd'' None]"

definition packing_editor :: Editor where
  "packing_editor = projr (ngOnChanges_open packing_frame)"


text \<open>
  Two editors for swaps, on frames of six units with two doors marked as left column:
  sd and dd (unit sizes 1 and 2), and dd and p2 (unit size 2 each).
\<close>

definition unequal_swap_editor :: Editor where
  "unequal_swap_editor =
     projr (ngOnChanges_open (scenario_frame ''F''
       [scenario_door 0 ''sd'' (Some ColLeft), scenario_door 1 ''dd'' (Some ColLeft)]))"

definition equal_swap_editor :: Editor where
  "equal_swap_editor =
     projr (ngOnChanges_open (scenario_frame ''F''
       [scenario_door 0 ''dd'' (Some ColLeft), scenario_door 1 ''p2'' (Some ColLeft)]))"

section \<open>Verified properties\<close>

subsection \<open>The state store\<close>

lemma find_filter_other:
  "a \<noteq> b \<Longrightarrow>
   find (\<lambda>l. level_id l = a) (filter (\<lambda>l. level_id l \<noteq> b) ls) = find (\<lambda>l. level_id l = a) ls"
  by (induction ls) auto

lemmas store_defs =
  run_ops_def INITIAL_STATE_def addLevel_def addWall_def removeWall_def removeLevel_def
  setActiveWall_def setActiveLevel_def setState_def next_id_def allWallIds_def
  String_of_int_def first_wall_id_def getLevel_def getActiveLevel_def getActiveWall_def

text \<open>
  Claim C1 (the active pointers are valid in every reachable state) fails on the code.
  From the initial state, add a level (level 1 with wall 1), add a wall to level 1
  (wall 2), and remove wall 2 from level 1: \<open>removeWall\<close> looks for the active wall in
  the level it changed, not in the active level, does not find it, and installs the first
  wall of level 1 as the active wall while level 0 stays the active level. The active
  wall id 1 then names no wall of the active level 0, and \<open>getActiveWall\<close> finds nothing.
\<close>

theorem removeWall_other_level_breaks_active_pointers:
  "active_level_id (run_ops ''t'' [AddLevel, AddWall 1, RemoveWall 1 2] INITIAL_STATE) = 0 \<and>
   active_wall_id (run_ops ''t'' [AddLevel, AddWall 1, RemoveWall 1 2] INITIAL_STATE) = 1 \<and>
   \<not> active_pointers_valid (run_ops ''t'' [AddLevel, AddWall 1, RemoveWall 1 2] INITIAL_STATE) \<and>
   getActiveWall (run_ops ''t'' [AddLevel, AddWall 1, RemoveWall 1 2] INITIAL_STATE) = None"
  by (simp add: store_defs active_pointers_valid_def Let_def)

text \<open>
  Claim C9: when the level that \<open>levelId\<close> resolves to has exactly one wall,
  \<open>removeWall\<close> returns \<open>false\<close> for every wall id and the state it leaves is the state
  it was given, whole.
\<close>

theorem removeWall_last_wall_rejected:
  assumes "getLevel state levelId = Some L" and "length (walls L) = 1"
  shows "removeWall now levelId wallId state = Inr (False, state)"
  using assms by (simp add: removeWall_def getLevel_def)

theorem removeWall_last_wall_rejected_witness:
  "getLevel INITIAL_STATE 0 = Some (hd (levels INITIAL_STATE)) \<and>
   length (walls (hd (levels INITIAL_STATE))) = 1 \<and>
   removeWall ''t'' 0 0 INITIAL_STATE = Inr (False, INITIAL_STATE)"
proof -
  have a: "getLevel INITIAL_STATE 0 = Some (hd (levels INITIAL_STATE))"
    by (simp add: getLevel_def INITIAL_STATE_def)
  have b: "length (walls (hd (levels INITIAL_STATE))) = 1"
    by (simp add: INITIAL_STATE_def)
  show ?thesis
    using removeWall_last_wall_rejected [OF a b, of "''t''" 0] a b by simp
qed

text \<open>
  Claim C10: in a state with at least two levels, \<open>removeLevel\<close> of a level other than
  level 0 and other than the active level succeeds, leaves the active level id and the
  active level itself as they were, and sets the active wall id to the first wall of the
  active level (0 when there is none); so an active wall that was not the first wall of
  its level stops being the active wall.
\<close>

theorem removeLevel_other_level_resets_active_wall:
  assumes "levelId \<noteq> 0" and "2 \<le> length (levels state)" and "levelId \<noteq> active_level_id state"
  shows "\<exists>state'. removeLevel now levelId state = Inr (True, state') \<and>
           active_level_id state' = active_level_id state \<and>
           getActiveLevel state' = getActiveLevel state \<and>
           active_wall_id state' = first_wall_id (getActiveLevel state) \<and>
           (active_wall_id state \<noteq> first_wall_id (getActiveLevel state) \<longrightarrow>
              active_wall_id state' \<noteq> active_wall_id state)"
  using assms
  by (simp add: removeLevel_def Let_def setState_def getActiveLevel_def getLevel_def
      find_filter_other)

theorem removeLevel_other_level_resets_active_wall_witness:
  "(1::int) \<noteq> 0 \<and>
   2 \<le> length (levels (run_ops ''t'' [AddLevel, AddWall 0, SetActiveWall 2] INITIAL_STATE)) \<and>
   1 \<noteq> active_level_id (run_ops ''t'' [AddLevel, AddWall 0, SetActiveWall 2] INITIAL_STATE) \<and>
   active_wall_id (run_ops ''t'' [AddLevel, AddWall 0, SetActiveWall 2] INITIAL_STATE) = 2 \<and>
   (\<exists>state'. removeLevel ''u'' 1 (run_ops ''t'' [AddLevel, AddWall 0, SetActiveWall 2] INITIAL_STATE)
                = Inr (True, state') \<and>
              active_level_id state' = 0 \<and> active_wall_id state' = 0)"
proof -
  let ?s = "run_ops ''t'' [AddLevel, AddWall 0, SetActiveWall 2] INITIAL_STATE"
  have a: "(1::int) \<noteq> 0" by simp
  have b: "2 \<le> length (levels ?s)" by (simp add: store_defs Let_def)
  have c: "1 \<noteq> active_level_id ?s" by (simp add: store_defs Let_def)
  have d: "active_wall_id ?s = 2" by (simp add: store_defs Let_def)
  have e: "active_level_id ?s = 0" by (simp add: store_defs Let_def)
  have f: "first_wall_id (getActiveLevel ?s) = 0" by (simp add: store_defs Let_def)
  from removeLevel_other_level_resets_active_wall [OF a b c, of "''u''"]
  obtain state' where
    "removeLevel ''u'' 1 ?s = Inr (True, state')"
    "active_level_id state' = active_level_id ?s"
    "active_wall_id state' = first_wall_id (getActiveLevel ?s)"
    by blast
  with e f have "removeLevel ''u'' 1 ?s = Inr (True, state') \<and>
      active_level_id state' = 0 \<and> active_wall_id state' = 0"
    by simp
  then have "\<exists>state'. removeLevel ''u'' 1 ?s = Inr (True, state') \<and>
      active_level_id state' = 0 \<and> active_wall_id state' = 0" ..
  with a b c d show ?thesis by blast
qed

subsection \<open>Frame reordering\<close>

lemma find_map_same:
  "(\<And>x. P (f x) = P x) \<Longrightarrow> find P (map f xs) = map_option f (find P xs)"
  by (induction xs) auto

lemma getActiveWall_updateWallFrames:
  assumes "getActiveWall state = Some wall"
  shows "getActiveWall (updateWallFrames now (wall_id wall) frs state) = Some (wall\<lparr> frames := frs \<rparr>)"
proof -
  from assms obtain lv where lv: "find (\<lambda>l. level_id l = active_level_id state) (levels state) = Some lv"
    and w: "find (\<lambda>w. wall_id w = active_wall_id state) (walls lv) = Some wall"
    by (auto simp: getActiveWall_def getActiveLevel_def getLevel_def split: option.splits)
  from w have wid: "wall_id wall = active_wall_id state"
    by (auto simp: find_Some_iff)
  let ?g = "\<lambda>w. if wall_id w = wall_id wall then w\<lparr> frames := frs \<rparr> else w"
  let ?f = "\<lambda>l. l\<lparr> walls := map ?g (walls l) \<rparr>"
  have "find (\<lambda>l. level_id l = active_level_id state) (map ?f (levels state)) = Some (?f lv)"
    using lv by (simp add: find_map_same)
  moreover have "find (\<lambda>w. wall_id w = active_wall_id state) (map ?g (walls lv)) = Some (?g wall)"
    using w by (simp add: find_map_same)
  ultimately show ?thesis
    using wid
    by (simp add: getActiveWall_def getActiveLevel_def getLevel_def updateWallFrames_def
        setState_def Let_def)
qed

lemma dragend_newIndex_scenario:
  "dragend_newIndex x [frame_group 100 100, frame_group 220 100] =
     (if x < 150 then 0 else if x < 270 then 1 else 2)"
  by (simp add: dragend_newIndex_def frame_group_def)

text \<open>
  Claim C4 as the code has it. The active wall holds the frames A, B, C with groups at
  x 0, 100 and 220, each 100 wide; A, at index 0, is dragged. The siblings' midpoints
  are 150 and 270, so the new index is 0 left of 150, 1 from 150 up to 270 and 2 from 270
  on. A drop at 250 puts A before C: the order becomes B, A, C. Only a drop at 270 or
  beyond puts A at the end.
\<close>

theorem reorder_scenario_inserts_before_C:
  assumes "getActiveWall state = Some wall" and "frames wall = [A, B, C]"
  shows "dragend_newIndex x [frame_group 100 100, frame_group 220 100] =
           (if x < 150 then 0 else if x < 270 then 1 else 2) \<and>
         getActiveWall (reorderFrames now 0
             (dragend_newIndex 250 [frame_group 100 100, frame_group 220 100]) state) =
           Some (wall\<lparr> frames := [B, A, C] \<rparr>) \<and>
         getActiveWall (reorderFrames now 0
             (dragend_newIndex 270 [frame_group 100 100, frame_group 220 100]) state) =
           Some (wall\<lparr> frames := [B, C, A] \<rparr>)"
  using assms
  by (simp add: dragend_newIndex_scenario reorderFrames_def splice_move_def
      getActiveWall_updateWallFrames)

lemma three_frames_wall:
  "getActiveWall three_frames =
     Some \<lparr> wall_id = 0, wall_name = ''Wall 1'',
            frames = [scenario_frame ''A'' [], scenario_frame ''B'' [], scenario_frame ''C'' []] \<rparr>"
  by (simp add: three_frames_def store_defs addFrame_def scenario_frame_def Let_def)

theorem reorder_scenario_inserts_before_C_witness:
  "map_option (map id_frame \<circ> frames) (getActiveWall three_frames) = Some [''A'', ''B'', ''C''] \<and>
   map_option (map id_frame \<circ> frames)
     (getActiveWall (reorderFrames ''u'' 0
        (dragend_newIndex 250 [frame_group 100 100, frame_group 220 100]) three_frames)) =
     Some [''B'', ''A'', ''C'']"
proof -
  let ?w = "\<lparr> wall_id = 0, wall_name = ''Wall 1'',
              frames = [scenario_frame ''A'' [], scenario_frame ''B'' [], scenario_frame ''C'' []] \<rparr>"
  have b: "frames ?w = [scenario_frame ''A'' [], scenario_frame ''B'' [], scenario_frame ''C'' []]"
    by simp
  from reorder_scenario_inserts_before_C [OF three_frames_wall b, of 250 "''u''"]
  have r: "getActiveWall (reorderFrames ''u'' 0
        (dragend_newIndex 250 [frame_group 100 100, frame_group 220 100]) three_frames) =
      Some (?w\<lparr> frames := [scenario_frame ''B'' [], scenario_frame ''A'' [], scenario_frame ''C'' []] \<rparr>)"
    by blast
  show ?thesis
    unfolding r three_frames_wall by (simp add: scenario_frame_def)
qed

text \<open>
  Claim C4 as stated fails: after the drop at 250 the order of the frames is not B, C, A.
\<close>

theorem reorder_scenario_not_at_end:
  "map_option (map id_frame \<circ> frames)
     (getActiveWall (reorderFrames ''u'' 0
        (dragend_newIndex 250 [frame_group 100 100, frame_group 220 100]) three_frames)) \<noteq>
     Some [''B'', ''C'', ''A'']"
proof -
  have i: "dragend_newIndex 250 [frame_group 100 100, frame_group 220 100] = 1"
    by (simp add: dragend_newIndex_scenario)
  have "reorderFrames ''u'' 0 1 three_frames =
      updateWallFrames ''u'' 0
        [scenario_frame ''B'' [], scenario_frame ''A'' [], scenario_frame ''C'' []] three_frames"
    by (simp add: reorderFrames_def three_frames_wall splice_move_def)
  moreover have "getActiveWall (updateWallFrames ''u'' 0
        [scenario_frame ''B'' [], scenario_frame ''A'' [], scenario_frame ''C'' []] three_frames) =
      Some \<lparr> wall_id = 0, wall_name = ''Wall 1'',
             frames = [scenario_frame ''B'' [], scenario_frame ''A'' [], scenario_frame ''C'' []] \<rparr>"
    using getActiveWall_updateWallFrames [OF three_frames_wall, of "''u''"] by simp
  ultimately show ?thesis
    unfolding i by (simp add: scenario_frame_def)
qed

subsection \<open>Auto-numbering\<close>















subsection \<open>Project snapshots\<close>






subsection \<open>Snap points\<close>





lemma sqrt_less_numeral: "0 \<le> t \<Longrightarrow> (sqrt a < t) = (a < t\<^sup>2)"
  by (metis real_sqrt_less_iff real_sqrt_abs abs_of_nonneg)









subsection \<open>The cabinet editor: replacing doors\<close>

lemma fold_freed: "fold (\<lambda>d t. t + door_units d) xs a = a + sum_list (map door_units xs)"
  by (induction xs arbitrary: a) (simp_all add: add.assoc)

lemma fold_min_props:
  "fold (\<lambda>d m. min m (position d)) xs a \<le> a \<and>
   (\<forall>d\<in>set xs. fold (\<lambda>d m. min m (position d)) xs a \<le> position d) \<and>
   fold (\<lambda>d m. min m (position d)) xs a \<in> insert a (position ` set xs)"
proof (induction xs arbitrary: a)
  case Nil
  show ?case by simp
next
  case (Cons x xs)
  from Cons [of "min a (position x)"] show ?case
    by (auto simp: min_def split: if_splits)
qed

lemma fold_min_Min:
  "fold (\<lambda>d m. min m (position d)) xs a = Min (insert a (position ` set xs))"
proof -
  let ?r = "fold (\<lambda>d m. min m (position d)) xs a"
  have "Min (insert a (position ` set xs)) = ?r"
    using fold_min_props [of xs a] by (intro Min_eqI) auto
  then show ?thesis by simp
qed

lemma initializeSlots_frame: "initializeSlots ed = Inr ed' \<Longrightarrow> frame ed' = frame ed"
  by (auto simp: initializeSlots_def Let_def split: sum.splits)

lemma getDoorUnits_pos: "0 < getDoorUnits name"
  by (auto simp: getDoorUnits_def DOOR_CONFIGS_def split: option.splits dest!: map_of_SomeD)



text \<open>
  Claim C3 as the code has it. \<open>replaceDoors\<close> returns early, leaving the editor as it
  was, exactly when the new door needs more units than the vacated doors free. Otherwise
  the new \<open>doors\<close> array is the old one without the doors whose id is in the list,
  followed by one new door: a copy of \<open>firstDoor\<close> with the new type in upper case, at
  the lowest position among \<open>firstDoor\<close> and the vacated doors (the lowest vacated
  position when \<open>firstDoor\<close> is one of them, as it is at both call sites); that array is
  what the component holds when \<open>replaceDoors\<close> returns.
\<close>

theorem replaceDoors_accepts_up_to_freed_units:
  "(freed_units (doors (frame ed)) ids < getDoorUnits newType \<longrightarrow>
      replaceDoors_doors (doors (frame ed)) firstDoor newType ids = None \<and>
      replaceDoors firstDoor newType ids ed = Inr ed) \<and>
   (getDoorUnits newType \<le> freed_units (doors (frame ed)) ids \<longrightarrow>
      replaceDoors_doors (doors (frame ed)) firstDoor newType ids =
        Some (filter (\<lambda>d. getDoorId d \<notin> set ids) (doors (frame ed)) @
              [firstDoor\<lparr> door_type := toUpperCase newType,
                          position := Min (insert (position firstDoor)
                                        (position ` set (vacated (doors (frame ed)) ids))) \<rparr>]) \<and>
      (firstDoor \<in> set (vacated (doors (frame ed)) ids) \<longrightarrow>
         Min (insert (position firstDoor) (position ` set (vacated (doors (frame ed)) ids))) =
         Min (position ` set (vacated (doors (frame ed)) ids))) \<and>
      (\<forall>ed'. replaceDoors firstDoor newType ids ed = Inr ed' \<longrightarrow>
         doors (frame ed') =
           filter (\<lambda>d. getDoorId d \<notin> set ids) (doors (frame ed)) @
           [firstDoor\<lparr> door_type := toUpperCase newType,
                       position := Min (insert (position firstDoor)
                                     (position ` set (vacated (doors (frame ed)) ids))) \<rparr>]))"
proof -
  have ins: "firstDoor \<in> set (vacated (doors (frame ed)) ids) \<Longrightarrow>
      insert (position firstDoor) (position ` set (vacated (doors (frame ed)) ids)) =
      position ` set (vacated (doors (frame ed)) ids)"
    by auto
  show ?thesis
    by (auto simp: replaceDoors_def replaceDoors_doors_def freed_units_def vacated_def fold_freed
        fold_min_Min Let_def ins [unfolded vacated_def] dest!: initializeSlots_frame)
qed

theorem replaceDoors_accepts_up_to_freed_units_witness:
  "freed_units (doors (frame packing_editor)) [DoorKey 0 ColLeft] = 2 \<and>
   getDoorUnits ''td'' = 3 \<and>
   replaceDoors (doors (frame packing_editor) ! 0) ''td'' [DoorKey 0 ColLeft] packing_editor =
     Inr packing_editor \<and>
   getDoorUnits ''sd'' = 1 \<and>
   map_option door_summary
     (replaceDoors_doors (doors (frame packing_editor)) (doors (frame packing_editor) ! 0)
        ''sd'' [DoorKey 0 ColLeft]) = Some [(2, ''sd''), (0, ''SD'')]"
proof -
  have a: "freed_units (doors (frame packing_editor)) [DoorKey 0 ColLeft] = 2"
    by code_simp
  have b: "getDoorUnits ''td'' = 3" "getDoorUnits ''sd'' = 1"
    by code_simp+
  have c: "map_option door_summary
     (replaceDoors_doors (doors (frame packing_editor)) (doors (frame packing_editor) ! 0)
        ''sd'' [DoorKey 0 ColLeft]) = Some [(2, ''sd''), (0, ''SD'')]"
    by code_simp
  have "freed_units (doors (frame packing_editor)) [DoorKey 0 ColLeft] < getDoorUnits ''td''"
    by (simp add: a b)
  with replaceDoors_accepts_up_to_freed_units
         [of packing_editor "[DoorKey 0 ColLeft]" "''td''" "doors (frame packing_editor) ! 0"]
  have "replaceDoors (doors (frame packing_editor) ! 0) ''td'' [DoorKey 0 ColLeft] packing_editor =
     Inr packing_editor"
    by blast
  with a b c show ?thesis by simp
qed

text \<open>
  Claim C3 as stated fails: replacing the dd of the packing scenario (2 units) by a sd
  (1 unit) succeeds although the unit sizes differ, and the new door is installed.
\<close>

theorem replaceDoors_unequal_units_succeeds:
  "getDoorUnits ''sd'' \<noteq> freed_units (doors (frame packing_editor)) [DoorKey 0 ColLeft] \<and>
   map_sum id editor_view
     (replaceDoors (doors (frame packing_editor) ! 0) ''sd'' [DoorKey 0 ColLeft] packing_editor) =
     Inr ([(2, ''sd''), (0, ''SD'')], [], [])"
  by code_simp

subsection \<open>The cabinet editor: placing a door on empty slots\<close>







lemma place_units_length: "place_units d idxs slots = Inr slots' \<Longrightarrow> length slots' = length slots"
proof (induction idxs arbitrary: slots)
  case Nil
  then show ?case by simp
next
  case (Cons i idxs)
  then obtain s1 where s1: "place_unit d i slots = Inr s1" and r: "place_units d idxs s1 = Inr slots'"
    by (auto split: sum.splits)
  from s1 have "length s1 = length slots"
    by (auto simp: place_unit_def Let_def split: if_splits)
  with Cons.IH [OF r] show ?case by simp
qed

lemma placeDoors_length: "placeDoors ds slots = Inr slots' \<Longrightarrow> length slots' = length slots"
proof (induction ds arbitrary: slots)
  case Nil
  then show ?case by simp
next
  case (Cons d ds)
  then obtain s1 where s1: "placeDoorInSlots d slots = Inr s1" and r: "placeDoors ds s1 = Inr slots'"
    by (auto split: sum.splits)
  from s1 have "length s1 = length slots"
    by (auto simp: placeDoorInSlots_def dest: place_units_length)
  with Cons.IH [OF r] show ?case by simp
qed

text \<open>
  \<open>initializeSlots\<close> leaves both slot arrays as long as the unit count: the hypothesis of
  the theorem on \<open>checkEmptySlotHover\<close> below.
\<close>

lemma initializeSlots_lengths:
  assumes "initializeSlots ed = Inr ed'"
  shows "length (slotsOf ed' c) = nat (totalUnits ed')"
proof -
  from assms obtain ls rs where
    l: "placeDoors (getLeftDoors (frame ed))
          (emptySlots ColLeft (nat (Math_round (height (frame ed) / DOOR_UNIT)))) = Inr ls" and
    r: "placeDoors (getRightDoors (frame ed))
          (emptySlots ColRight (nat (Math_round (height (frame ed) / DOOR_UNIT)))) = Inr rs" and
    e: "ed' = ed\<lparr> totalUnits := Math_round (height (frame ed) / DOOR_UNIT),
                   leftSlots := ls, rightSlots := rs \<rparr>"
    by (auto simp: initializeSlots_def Let_def split: sum.splits)
  from placeDoors_length [OF l] placeDoors_length [OF r] e show ?thesis
    by (simp add: slotsOf_def emptySlots_def)
qed










subsection \<open>The cabinet editor: no overlap\<close>

lemma no_overlap_iff:
  "no_overlap ds \<longleftrightarrow>
     (\<forall>a<length ds. \<forall>b<length ds. a \<noteq> b \<longrightarrow> door_column (ds ! a) = door_column (ds ! b) \<longrightarrow>
        ranges_disjoint (ds ! a) (ds ! b))"
  unfolding no_overlap_def list_all_iff by (simp add: Ball_def) blast

lemma swap_positions_no_overlap:
  assumes ov: "no_overlap ds" and i: "i < length ds" and j: "j < length ds"
    and u: "door_units (ds ! i) = door_units (ds ! j)"
    and c: "door_column (ds ! i) = door_column (ds ! j)"
  defines "ds1 \<equiv> ds[i := (ds ! i)\<lparr> position := position (ds ! j) \<rparr>]"
  defines "ds2 \<equiv> ds1[j := (ds1 ! j)\<lparr> position := position (ds ! i) \<rparr>]"
  shows "no_overlap ds2"
proof -
  define t where "t = (\<lambda>a. if a = i then j else if a = j then i else a)"
  have nth: "ds2 ! a = (ds ! a)\<lparr> position := position (ds ! t a) \<rparr>" if "a < length ds" for a
    using that i j by (auto simp: ds2_def ds1_def t_def nth_list_update)
  have len: "length ds2 = length ds" by (simp add: ds2_def ds1_def)
  have t_less: "t a < length ds" if "a < length ds" for a using that i j by (simp add: t_def)
  have t_inj: "t a \<noteq> t b" if "a \<noteq> b" for a b using that by (auto simp: t_def split: if_splits)
  have t_units: "door_units (ds ! t a) = door_units (ds ! a)" for a using u by (simp add: t_def)
  have t_col: "door_column (ds ! t a) = door_column (ds ! a)" for a using c by (simp add: t_def)
  show ?thesis
    unfolding no_overlap_iff len
  proof (intro allI impI)
    fix a b
    assume a: "a < length ds" and b: "b < length ds" and ab: "a \<noteq> b"
      and col: "door_column (ds2 ! a) = door_column (ds2 ! b)"
    have "door_column (ds2 ! a) = door_column (ds ! a)" "door_column (ds2 ! b) = door_column (ds ! b)"
      using a b by (simp_all add: nth door_column_def)
    with col have "door_column (ds ! t a) = door_column (ds ! t b)"
      by (simp only: t_col)
    with ov t_less [OF a] t_less [OF b] t_inj [OF ab]
    have "ranges_disjoint (ds ! t a) (ds ! t b)" by (simp add: no_overlap_iff)
    then show "ranges_disjoint (ds2 ! a) (ds2 ! b)"
      using t_units [of a] t_units [of b] a b
      by (simp add: nth ranges_disjoint_def door_units_def)
  qed
qed

lemma door_units_position [simp]: "door_units (d\<lparr> position := p \<rparr>) = door_units d"
  by (simp add: door_units_def)

lemma door_column_position [simp]: "door_column (d\<lparr> position := p \<rparr>) = door_column d"
  by (simp add: door_column_def)

lemma door_units_nonneg: "0 \<le> door_units d"
  using getDoorUnits_pos [of "toLowerCase (door_type d)"] by (simp add: door_units_def)

lemma normalize_from_spec:
  assumes "distinct ks" and "\<forall>k\<in>set ks. k < length ds"
  shows "length (normalize_from cur ks ds) = length ds \<and>
         (\<forall>k<length ds. k \<notin> set ks \<longrightarrow> normalize_from cur ks ds ! k = ds ! k) \<and>
         (\<forall>k<length ds. door_units (normalize_from cur ks ds ! k) = door_units (ds ! k) \<and>
                         door_column (normalize_from cur ks ds ! k) = door_column (ds ! k)) \<and>
         (\<forall>k\<in>set ks. cur \<le> position (normalize_from cur ks ds ! k)) \<and>
         (\<forall>a\<in>set ks. \<forall>b\<in>set ks. a \<noteq> b \<longrightarrow>
            ranges_disjoint (normalize_from cur ks ds ! a) (normalize_from cur ks ds ! b))"
  using assms
proof (induction ks arbitrary: cur ds)
  case Nil
  show ?case by simp
next
  case (Cons k rest)
  let ?ds' = "ds[k := (ds ! k)\<lparr> position := cur \<rparr>]"
  let ?cur' = "cur + door_units (ds ! k)"
  let ?res = "normalize_from ?cur' rest ?ds'"
  from Cons.prems have k: "k < length ds" "k \<notin> set rest" and d: "distinct rest"
    and b: "\<forall>k\<in>set rest. k < length ?ds'" by auto
  note ih = Cons.IH [OF d b, of ?cur']
  have res: "normalize_from cur (k # rest) ds = ?res" by simp
  from ih have len: "length ?res = length ds" by simp
  from ih k have resk: "?res ! k = (ds ! k)\<lparr> position := cur \<rparr>" by simp
  have keep: "\<forall>j<length ds. j \<notin> set (k # rest) \<longrightarrow> ?res ! j = ds ! j"
    using ih k by (auto simp: nth_list_update)
  have same: "\<forall>j<length ds. door_units (?res ! j) = door_units (ds ! j) \<and>
                         door_column (?res ! j) = door_column (ds ! j)"
    using ih k by (auto simp: nth_list_update)
  have low: "\<forall>j\<in>set rest. ?cur' \<le> position (?res ! j)" using ih by blast
  have low': "\<forall>j\<in>set (k # rest). cur \<le> position (?res ! j)"
    using low resk door_units_nonneg [of "ds ! k"] by (auto intro: order_trans [of cur ?cur'])
  have dis_k: "\<forall>j\<in>set rest. ranges_disjoint (?res ! k) (?res ! j) \<and> ranges_disjoint (?res ! j) (?res ! k)"
    using low resk by (auto simp: ranges_disjoint_def)
  have dis: "\<forall>a\<in>set (k # rest). \<forall>b\<in>set (k # rest). a \<noteq> b \<longrightarrow> ranges_disjoint (?res ! a) (?res ! b)"
    using ih dis_k by auto
  from len keep same low' dis show ?case unfolding res by blast
qed

lemma normalize_no_overlap: "no_overlap (doors (normalizeDoorPositions f))"
proof -
  let ?ds = "doors f"
  let ?L = "sort_key (\<lambda>k. position (?ds ! k)) (filter (\<lambda>k. isLeftDoor (?ds ! k)) [0 ..< length ?ds])"
  let ?R = "sort_key (\<lambda>k. position (?ds ! k)) (filter (\<lambda>k. isRightDoor (?ds ! k)) [0 ..< length ?ds])"
  let ?r1 = "normalize_from 0 ?L ?ds"
  let ?r2 = "normalize_from 0 ?R ?r1"
  have dL: "distinct ?L" and bL: "\<forall>k\<in>set ?L. k < length ?ds" by simp_all
  note s1 = normalize_from_spec [OF dL bL, of 0]
  from s1 have len1: "length ?r1 = length ?ds" by simp
  have dR: "distinct ?R" and bR: "\<forall>k\<in>set ?R. k < length ?r1" using len1 by simp_all
  note s2 = normalize_from_spec [OF dR bR, of 0]
  have res: "doors (normalizeDoorPositions f) = ?r2"
    by (simp add: normalizeDoorPositions_def Let_def)
  have len2: "length ?r2 = length ?ds" using s2 len1 by simp
  have col: "door_column (?r2 ! k) = door_column (?ds ! k)" if "k < length ?ds" for k
    using s1 s2 len1 that by simp
  have inL: "k \<in> set ?L \<longleftrightarrow> door_column (?ds ! k) = ColLeft" if "k < length ?ds" for k
    using that by (auto simp: isLeftDoor_def door_column_def split: option.splits Column.splits)
  have inR: "k \<in> set ?R \<longleftrightarrow> door_column (?ds ! k) = ColRight" if "k < length ?ds" for k
    using that by (auto simp: isRightDoor_def door_column_def split: option.splits)
  show ?thesis
    unfolding res no_overlap_iff len2
  proof (intro allI impI)
    fix a b
    assume a: "a < length ?ds" and b: "b < length ?ds" and ab: "a \<noteq> b"
      and c: "door_column (?r2 ! a) = door_column (?r2 ! b)"
    from c a b have c': "door_column (?ds ! a) = door_column (?ds ! b)" by (simp only: col)
    show "ranges_disjoint (?r2 ! a) (?r2 ! b)"
    proof (cases "door_column (?ds ! a)")
      case ColLeft
      with c' a b have "a \<in> set ?L" "b \<in> set ?L" by (simp_all only: inL)
      with s1 ab have d1: "ranges_disjoint (?r1 ! a) (?r1 ! b)" by blast
      from ColLeft c' a b have "a \<notin> set ?R" "b \<notin> set ?R" by (simp_all only: inR) simp_all
      with s2 a b len1 have "?r2 ! a = ?r1 ! a" "?r2 ! b = ?r1 ! b" by simp_all
      with d1 show ?thesis by simp
    next
      case ColRight
      with c' a b have "a \<in> set ?R" "b \<in> set ?R" by (simp_all only: inR)
      with s2 ab show ?thesis by blast
    qed
  qed
qed

text \<open>
  Claim C2 as the code has it. The store keeps sequential indices in \<open>position\<close>; the
  editor converts them on opening, and after \<open>normalizeDoorPositions\<close> no two doors of a
  column overlap. A successful swap of two doors of one column that have the same unit
  size exchanges their positions and keeps the doors free of overlap.
\<close>

theorem editor_no_overlap_after_open_and_equal_swap:
  assumes ov: "no_overlap (doors (frame ed))"
    and sw: "trySwapDoors i j ed = Inr (True, ed')"
    and u: "door_units (doors (frame ed) ! i) = door_units (doors (frame ed) ! j)"
    and c: "door_column (doors (frame ed) ! i) = door_column (doors (frame ed) ! j)"
  shows "no_overlap (doors (normalizeDoorPositions f)) \<and>
         no_overlap (doors (frame ed')) \<and>
         position (doors (frame ed') ! i) = position (doors (frame ed) ! j) \<and>
         position (doors (frame ed') ! j) = position (doors (frame ed) ! i)"
proof -
  let ?ds = "doors (frame ed)"
  let ?ds1 = "?ds[i := (?ds ! i)\<lparr> position := position (?ds ! j) \<rparr>]"
  let ?ds2 = "?ds1[j := (?ds1 ! j)\<lparr> position := position (?ds ! i) \<rparr>]"
  from sw have i: "i < length ?ds" and j: "j < length ?ds"
    by (auto simp: trySwapDoors_def Let_def split: if_splits)
  from sw i j have "initializeSlots (ed\<lparr> frame := (frame ed)\<lparr> doors := ?ds2 \<rparr> \<rparr>) = Inr ed'"
    by (auto simp: trySwapDoors_def Let_def split: if_splits sum.splits)
  then have eq: "doors (frame ed') = ?ds2" by (auto dest: initializeSlots_frame)
  have "position (?ds2 ! i) = position (?ds ! j)" "position (?ds2 ! j) = position (?ds ! i)"
    using i j by (auto simp: nth_list_update)
  with swap_positions_no_overlap [OF ov i j u c] normalize_no_overlap [of f] eq
  show ?thesis by simp
qed

theorem editor_no_overlap_after_open_and_equal_swap_witness:
  "no_overlap (doors (frame equal_swap_editor)) \<and>
   trySwapDoors 0 1 equal_swap_editor = Inr (True, snd (projr (trySwapDoors 0 1 equal_swap_editor))) \<and>
   door_summary (doors (frame equal_swap_editor)) = [(0, ''dd''), (2, ''p2'')] \<and>
   swap_view (snd (projr (trySwapDoors 0 1 equal_swap_editor))) =
     ([(2, ''dd''), (0, ''p2'')], True)"
proof -
  let ?ed' = "snd (projr (trySwapDoors 0 1 equal_swap_editor))"
  have a: "no_overlap (doors (frame equal_swap_editor))" by code_simp
  have b: "trySwapDoors 0 1 equal_swap_editor = Inr (True, ?ed')" by code_simp
  have c: "door_units (doors (frame equal_swap_editor) ! 0) =
           door_units (doors (frame equal_swap_editor) ! 1)" by code_simp
  have d: "door_column (doors (frame equal_swap_editor) ! 0) =
           door_column (doors (frame equal_swap_editor) ! 1)" by code_simp
  have e: "door_summary (doors (frame equal_swap_editor)) = [(0, ''dd''), (2, ''p2'')]"
    "door_summary (doors (frame ?ed')) = [(2, ''dd''), (0, ''p2'')]"
    by code_simp+
  from editor_no_overlap_after_open_and_equal_swap [OF a b c d]
  have "no_overlap (doors (frame ?ed'))" by blast
  with a b e show ?thesis by (simp add: swap_view_def)
qed

text \<open>
  Claim C2 as stated fails on both operations it names. A sd at unit 0 and a dd at
  unit 1 do not overlap; their swap succeeds and leaves the sd at unit 1 inside the dd at
  units 0 and 1. And the conversion on save turns the positions 0 and 2 of the packing
  scenario into the indices 0 and 1, which as unit ranges overlap.
\<close>

theorem swap_and_save_break_no_overlap:
  "swap_view unequal_swap_editor = ([(0, ''sd''), (1, ''dd'')], True) \<and>
   map_sum id (map_prod id swap_view) (trySwapDoors 0 1 unequal_swap_editor) =
     Inr (True, [(1, ''sd''), (0, ''dd'')], False) \<and>
   swap_view packing_editor = ([(0, ''dd''), (2, ''sd'')], True) \<and>
   door_summary (doors (denormalizeDoorPositions (frame packing_editor))) =
     [(0, ''dd''), (1, ''sd'')] \<and>
   \<not> no_overlap (doors (denormalizeDoorPositions (frame packing_editor)))"
  by code_simp

end
